theory Spec2Isabelle
  imports Main "HOL-Library.Word"
begin

section \<open>Outcomes of Go code\<close>

text \<open>
  A Go function either returns or panics. A panic (a write into a nil map, the dereference
  of a nil pointer) unwinds the caller, so it is a value of its own, kept apart from the
  \<open>error\<close> a function returns.
\<close>

datatype 'a outcome = Panic string | Returned 'a

definition nilMapPanic :: string where
  "nilMapPanic = ''assignment to entry in nil map''"

definition nilDerefPanic :: string where
  "nilDerefPanic = ''runtime error: invalid memory address or nil pointer dereference''"

text \<open>
  Errors are built by \<open>errors.New\<close>, wrapped by \<open>errors.Wrap\<close>, or come from the API
  server; only the last kind can be a not-found error. A Go \<open>error\<close> that may be nil is an
  \<open>error option\<close>.
\<close>

datatype error = New string | NotFound string | Wrap error string

fun errorString :: "error \<Rightarrow> string" where
  "errorString (New m) = m"
| "errorString (NotFound m) = m"
| "errorString (Wrap e m) = m @ '': '' @ errorString e"

fun isNotFound :: "error \<Rightarrow> bool" where
  "isNotFound (NotFound m) = True"
| "isNotFound e = False"

text \<open>\<open>errors.Wrap\<close> of a nil error is nil.\<close>

fun wrap :: "error option \<Rightarrow> string \<Rightarrow> error option" where
  "wrap None m = None"
| "wrap (Some e) m = Some (Wrap e m)"

text \<open>\<open>resource.IgnoreNotFound\<close> turns a not-found error into nil and keeps any other.\<close>

fun ignoreNotFound :: "error option \<Rightarrow> error option" where
  "ignoreNotFound None = None"
| "ignoreNotFound (Some e) = (if isNotFound e then None else Some e)"

section \<open>Data model\<close>

subsection \<open>The OAM ContainerizedWorkload (the fields the packager reads)\<close>

type_synonym int32 = "32 word"
type_synonym quantity = string

record oamPort =
  op_name :: string
  op_port :: int32
  op_protocol :: "string option"

record oamEnvVar =
  oe_name :: string
  oe_value :: string

record oamHTTPHeader =
  oh_name :: string
  oh_value :: string

record oamHTTPGet =
  og_path :: string
  og_port :: int32
  og_httpHeaders :: "oamHTTPHeader list"

record oamProbe =
  opr_initialDelaySeconds :: "int32 option"
  opr_timeoutSeconds :: "int32 option"
  opr_periodSeconds :: "int32 option"
  opr_successThreshold :: "int32 option"
  opr_failureThreshold :: "int32 option"
  opr_httpGet :: "oamHTTPGet option"
  opr_exec :: "string list option"
  opr_tcpSocket :: "int32 option"

datatype volumeAccessMode = VolumeAccessModeRO | VolumeAccessModeRW

record oamVolume =
  ov_name :: string
  ov_mouthPath :: string
  ov_accessMode :: "volumeAccessMode option"

text \<open>
  The resources of a container sit behind a pointer, \<open>container.Resources\<close>, that may
  be nil: \<open>oc_resources = None\<close>.
\<close>

record oamResources =
  ors_cpuRequired :: quantity
  ors_memoryRequired :: quantity
  ors_volumes :: "oamVolume list"

record oamContainer =
  oc_name :: string
  oc_image :: string
  oc_command :: "string list"
  oc_arguments :: "string list"
  oc_imagePullSecret :: "string option"
  oc_resources :: "oamResources option"
  oc_ports :: "oamPort list"
  oc_environment :: "oamEnvVar list"
  oc_livenessProbe :: "oamProbe option"
  oc_readinessProbe :: "oamProbe option"

record containerizedWorkload =
  cw_operatingSystem :: "string option"
  cw_cpuArchitecture :: "string option"
  cw_containers :: "oamContainer list"

subsection \<open>The Kubernetes Deployment (the fields the packager and the modifier write)\<close>

record k8sPort =
  kp_name :: string
  kp_containerPort :: int32
  kp_protocol :: string

record k8sEnvVar =
  ke_name :: string
  ke_value :: string

record k8sHTTPHeader =
  kh_name :: string
  kh_value :: string

record k8sHTTPGet =
  kg_path :: string
  kg_port :: int32
  kg_httpHeaders :: "k8sHTTPHeader list"

text \<open>
  The timing fields of a Kubernetes probe are plain \<open>int32\<close>s: a fresh probe holds zeros.
  Its three handlers are pointers.
\<close>

record k8sProbe =
  kpr_initialDelaySeconds :: int32
  kpr_timeoutSeconds :: int32
  kpr_periodSeconds :: int32
  kpr_successThreshold :: int32
  kpr_failureThreshold :: int32
  kpr_httpGet :: "k8sHTTPGet option"
  kpr_exec :: "string list option"
  kpr_tcpSocket :: "int32 option"

record k8sVolumeMount =
  kv_name :: string
  kv_mountPath :: string
  kv_readOnly :: bool

record k8sContainer =
  kc_name :: string
  kc_image :: string
  kc_command :: "string list"
  kc_args :: "string list"
  kc_requests :: "string \<rightharpoonup> quantity"
  kc_ports :: "k8sPort list"
  kc_env :: "k8sEnvVar list"
  kc_livenessProbe :: "k8sProbe option"
  kc_readinessProbe :: "k8sProbe option"
  kc_volumeMounts :: "k8sVolumeMount list"

text \<open>
  A Go map field is nil until it is made: \<open>d_nodeSelector = None\<close> is the nil map, and
  writing a key into it panics.
\<close>

record deployment =
  d_kind :: string
  d_replicas :: "int32 option"
  d_nodeSelector :: "(string \<rightharpoonup> string) option"
  d_imagePullSecrets :: "string list"
  d_containers :: "k8sContainer list"

text \<open>The zero value \<open>&appsv1.Deployment{}\<close>.\<close>

definition emptyDeployment :: deployment where
  "emptyDeployment = \<lparr>d_kind = [], d_replicas = None, d_nodeSelector = None,
     d_imagePullSecrets = [], d_containers = []\<rparr>"

definition emptyProbe :: k8sProbe where
  "emptyProbe = \<lparr>kpr_initialDelaySeconds = 0, kpr_timeoutSeconds = 0, kpr_periodSeconds = 0,
     kpr_successThreshold = 0, kpr_failureThreshold = 0, kpr_httpGet = None, kpr_exec = None,
     kpr_tcpSocket = None\<rparr>"

subsection \<open>The KubernetesApplication (the aggregate) and its resource templates\<close>

text \<open>
  A resource template holds an unstructured document, of a type \<open>'u\<close> left open here: the
  documents are read and written only through the converter of the API machinery. The
  \<open>Template\<close> pointer of a template is taken to be set, as the API type requires.
\<close>

record 'u resourceTemplate =
  rt_name :: string
  rt_template :: 'u
  rt_secrets :: "string list"

record ownerReference =
  or_uid :: string
  or_controller :: bool

record 'u kubernetesApplication =
  app_name :: string
  app_namespace :: string
  app_ownerReferences :: "ownerReference list"
  resourceTemplates :: "'u resourceTemplate list"

text \<open>The zero value \<open>&KubernetesApplication{}\<close>.\<close>

definition emptyApp :: "'u kubernetesApplication" where
  "emptyApp = \<lparr>app_name = [], app_namespace = [], app_ownerReferences = [],
     resourceTemplates = []\<rparr>"

subsection \<open>Traits, conditions and runtime objects\<close>

datatype conditionType = TypeReady | TypeSynced
datatype conditionStatus = ConditionTrue | ConditionFalse | ConditionUnknown
datatype conditionReason = ReasonReconcileSuccess | ReasonReconcileError | ReasonOther string

text \<open>A condition, without its transition time (the wall clock is not modelled).\<close>

record condition =
  c_type :: conditionType
  c_status :: conditionStatus
  c_reason :: conditionReason
  c_message :: string

datatype traitSpec = ManualScalerSpec (replicaCount: int32) | OtherTraitSpec

text \<open>
  What the reconciler reads of a trait through the \<open>Trait\<close> interface (object metadata,
  the workload reference, the conditions), and the spec of its concrete kind.
\<close>

record trait =
  t_name :: string
  t_namespace :: string
  t_ownerReferences :: "ownerReference list"
  t_workloadRefName :: string
  t_conditions :: "condition list"
  t_spec :: traitSpec

text \<open>
  A \<open>runtime.Object\<close> is dynamically typed: \<open>ManualScalerTrait\<close> is a trait whose spec
  is a \<open>ManualScalerSpec\<close>.
\<close>

datatype runtime_object =
    ContainerizedWorkload containerizedWorkload
  | Trait trait
  | OtherObject string

text \<open>
  The functions of the API machinery that the packagers and the modifier call; they are
  not part of this repository and are taken as parameters. \<open>getKind\<close> reads the
  discriminant of a document, \<open>fromUnstructured\<close> decodes a document into a Deployment,
  \<open>toUnstructured\<close> encodes a Deployment.
\<close>

record 'u apimachinery =
  getKind :: "'u \<Rightarrow> string"
  fromUnstructured :: "'u \<Rightarrow> error + deployment"
  toUnstructured :: "deployment \<Rightarrow> error + 'u"

section \<open>The ContainerizedWorkload packager\<close>

definition errNotContainerizedWorkload :: string where
  "errNotContainerizedWorkload = ''object is not a containerized workload''"

text \<open>\<open>d.Spec.Template.Spec.NodeSelector[k] = v\<close>: panics when the map is nil.\<close>

definition setNodeSelector :: "string \<Rightarrow> string \<Rightarrow> deployment \<Rightarrow> deployment outcome" where
  "setNodeSelector k v d =
     (case d_nodeSelector d of
        None \<Rightarrow> Panic nilMapPanic
      | Some m \<Rightarrow> Returned (d\<lparr>d_nodeSelector := Some (m(k \<mapsto> v))\<rparr>))"

text \<open>
  The loop over the ports of a container: \<open>*p.Protocol\<close> dereferences the protocol
  pointer of every port, whether it is nil or not.
\<close>

fun portsOf :: "oamPort list \<Rightarrow> k8sPort list outcome" where
  "portsOf [] = Returned []"
| "portsOf (p # ps) =
     (case op_protocol p of
        None \<Rightarrow> Panic nilDerefPanic
      | Some pr \<Rightarrow>
          (case portsOf ps of
             Panic m \<Rightarrow> Panic m
           | Returned ks \<Rightarrow>
               Returned (\<lparr>kp_name = op_name p, kp_containerPort = op_port p, kp_protocol = pr\<rparr> # ks)))"

definition envOf :: "oamEnvVar list \<Rightarrow> k8sEnvVar list" where
  "envOf es = map (\<lambda>e. \<lparr>ke_name = oe_name e, ke_value = oe_value e\<rparr>) es"

definition httpGetOf :: "oamHTTPGet \<Rightarrow> k8sHTTPGet" where
  "httpGetOf g = \<lparr>kg_path = og_path g, kg_port = og_port g,
     kg_httpHeaders = map (\<lambda>h. \<lparr>kh_name = oh_name h, kh_value = oh_value h\<rparr>) (og_httpHeaders g)\<rparr>"

definition setIfPresent :: "int32 option \<Rightarrow> int32" where
  "setIfPresent v = (case v of None \<Rightarrow> 0 | Some x \<Rightarrow> x)"

text \<open>
  The liveness and the readiness probe are translated by the same code, written out twice
  in the source: timing fields are copied when set, and every handler present is set.
\<close>

definition probeOf :: "oamProbe \<Rightarrow> k8sProbe" where
  "probeOf p = emptyProbe
     \<lparr>kpr_initialDelaySeconds := setIfPresent (opr_initialDelaySeconds p),
      kpr_timeoutSeconds := setIfPresent (opr_timeoutSeconds p),
      kpr_periodSeconds := setIfPresent (opr_periodSeconds p),
      kpr_successThreshold := setIfPresent (opr_successThreshold p),
      kpr_failureThreshold := setIfPresent (opr_failureThreshold p),
      kpr_httpGet := map_option httpGetOf (opr_httpGet p),
      kpr_exec := opr_exec p,
      kpr_tcpSocket := opr_tcpSocket p\<rparr>"

definition volumeMountsOf :: "oamVolume list \<Rightarrow> k8sVolumeMount list" where
  "volumeMountsOf vs = map (\<lambda>v. \<lparr>kv_name = ov_name v, kv_mountPath = ov_mouthPath v,
     kv_readOnly = (ov_accessMode v = Some VolumeAccessModeRO)\<rparr>) vs"

text \<open>
  One container. The literal that starts the Kubernetes container reads
  \<open>container.Resources.CPU.Required\<close> and \<open>container.Resources.Memory.Required\<close>
  through the resources pointer, unguarded, before the loop over the ports; the loop over
  the volumes reads \<open>container.Resources.Volumes\<close> through it once more.
\<close>

definition containerOf :: "oamContainer \<Rightarrow> k8sContainer outcome" where
  "containerOf c =
     (case oc_resources c of
        None \<Rightarrow> Panic nilDerefPanic
      | Some res \<Rightarrow>
          (case portsOf (oc_ports c) of
             Panic m \<Rightarrow> Panic m
           | Returned ks \<Rightarrow> Returned
               \<lparr>kc_name = oc_name c, kc_image = oc_image c, kc_command = oc_command c,
                kc_args = oc_arguments c,
                kc_requests = [''cpu'' \<mapsto> ors_cpuRequired res,
                               ''memory'' \<mapsto> ors_memoryRequired res],
                kc_ports = ks,
                kc_env = envOf (oc_environment c),
                kc_livenessProbe = map_option probeOf (oc_livenessProbe c),
                kc_readinessProbe = map_option probeOf (oc_readinessProbe c),
                kc_volumeMounts = volumeMountsOf (ors_volumes res)\<rparr>))"

text \<open>The loop over the containers, with the Deployment under construction as its state.\<close>

fun packContainers :: "oamContainer list \<Rightarrow> deployment \<Rightarrow> deployment outcome" where
  "packContainers [] d = Returned d"
| "packContainers (c # cs) d =
     (let d1 = (case oc_imagePullSecret c of
                  None \<Rightarrow> d
                | Some s \<Rightarrow> d\<lparr>d_imagePullSecrets := d_imagePullSecrets d @ [s]\<rparr>)
      in case containerOf c of
           Panic m \<Rightarrow> Panic m
         | Returned k \<Rightarrow> packContainers cs (d1\<lparr>d_containers := d_containers d1 @ [k]\<rparr>))"

text \<open>
  The Deployment \<open>d\<close> that the packager builds, starting from the zero value, whose node
  selector is the nil map.
\<close>

definition buildDeployment :: "containerizedWorkload \<Rightarrow> deployment outcome" where
  "buildDeployment cw =
     (case (case cw_operatingSystem cw of
              None \<Rightarrow> Returned emptyDeployment
            | Some os \<Rightarrow> setNodeSelector ''beta.kubernetes.io/os'' os emptyDeployment) of
        Panic m \<Rightarrow> Panic m
      | Returned d1 \<Rightarrow>
          (case (case cw_cpuArchitecture cw of
                   None \<Rightarrow> Returned d1
                 | Some arch \<Rightarrow> setNodeSelector ''kubernetes.io/arch'' arch d1) of
             Panic m \<Rightarrow> Panic m
           | Returned d2 \<Rightarrow> packContainers (cw_containers cw) d2))"

text \<open>
  \<open>containerizedWorkloadPackager\<close>: the type assertion, the construction of \<open>d\<close>, and
  \<open>return nil\<close>. The function never reads or writes \<open>app\<close>; the result carries the
  returned error and the aggregate as the call leaves it.
\<close>

definition containerizedWorkloadPackager ::
  "'u kubernetesApplication \<Rightarrow> runtime_object \<Rightarrow> (error option \<times> 'u kubernetesApplication) outcome" where
  "containerizedWorkloadPackager app obj =
     (case obj of
        ContainerizedWorkload cw \<Rightarrow>
          (case buildDeployment cw of
             Panic m \<Rightarrow> Panic m
           | Returned d \<Rightarrow> Returned (None, app))
      | Trait t \<Rightarrow> Returned (Some (New errNotContainerizedWorkload), app)
      | OtherObject k \<Rightarrow> Returned (Some (New errNotContainerizedWorkload), app))"

text \<open>
  \<open>genericPackager\<close>, the default packager of the workload reconciler: it encodes the
  object (with the converter of the API machinery, a parameter here) and appends one
  resource template that holds the document.
\<close>

definition genericPackager ::
  "(runtime_object \<Rightarrow> error + 'u) \<Rightarrow> 'u kubernetesApplication \<Rightarrow> runtime_object \<Rightarrow> error option \<times> 'u kubernetesApplication" where
  "genericPackager objectToUnstructured app obj =
     (case objectToUnstructured obj of
        Inl e \<Rightarrow> (Some e, app)
      | Inr u \<Rightarrow> (None, app\<lparr>resourceTemplates := resourceTemplates app
                    @ [\<lparr>rt_name = [], rt_template = u, rt_secrets = []\<rparr>]\<rparr>))"

section \<open>The ManualScalerTrait modifier\<close>

definition errNotManualScalerTrait :: string where
  "errNotManualScalerTrait = ''trait is not a manual scaler''"

text \<open>
  The loop of \<open>manualScalerModifier\<close> over the resource templates; the head of the list is
  the template at the loop index. A template of kind Deployment is decoded, its replica
  count overwritten, encoded, and stored at its index; a failed conversion returns the
  error at once, with the templates before it already written. The loop has no break.
\<close>

fun modifyTemplates ::
  "'u apimachinery \<Rightarrow> int32 \<Rightarrow> 'u resourceTemplate list \<Rightarrow> error option \<times> 'u resourceTemplate list" where
  "modifyTemplates api n [] = (None, [])"
| "modifyTemplates api n (t # ts) =
     (if getKind api (rt_template t) = ''Deployment'' then
        (case fromUnstructured api (rt_template t) of
           Inl e \<Rightarrow> (Some e, t # ts)
         | Inr d \<Rightarrow>
             (case toUnstructured api (d\<lparr>d_replicas := Some n\<rparr>) of
                Inl e \<Rightarrow> (Some e, t # ts)
              | Inr u \<Rightarrow>
                  (case modifyTemplates api n ts of
                     (r, ts') \<Rightarrow> (r, t\<lparr>rt_template := u\<rparr> # ts'))))
      else
        (case modifyTemplates api n ts of (r, ts') \<Rightarrow> (r, t # ts')))"

definition manualScalerModifier ::
  "'u apimachinery \<Rightarrow> 'u kubernetesApplication \<Rightarrow> runtime_object \<Rightarrow> error option \<times> 'u kubernetesApplication" where
  "manualScalerModifier api app obj =
     (case obj of
        Trait t \<Rightarrow>
          (case t_spec t of
             ManualScalerSpec n \<Rightarrow>
               (case modifyTemplates api n (resourceTemplates app) of
                  (r, ts') \<Rightarrow> (r, app\<lparr>resourceTemplates := ts'\<rparr>))
           | OtherTraitSpec \<Rightarrow> (Some (New errNotManualScalerTrait), app))
      | ContainerizedWorkload cw \<Rightarrow> (Some (New errNotManualScalerTrait), app)
      | OtherObject k \<Rightarrow> (Some (New errNotManualScalerTrait), app))"

text \<open>\<open>noopModifier\<close>, the default modifier of a reconciler.\<close>

definition noopModifier ::
  "'u kubernetesApplication \<Rightarrow> runtime_object \<Rightarrow> error option \<times> 'u kubernetesApplication" where
  "noopModifier app obj = (None, app)"

section \<open>The trait reconciler\<close>

text \<open>A \<open>time.Duration\<close> counts nanoseconds.\<close>

type_synonym duration = int

definition second :: duration where
  "second = 1000000000"

definition minute :: duration where
  "minute = 60 * second"

definition reconcileTimeout :: duration where
  "reconcileTimeout = 1 * minute"

definition shortWait :: duration where
  "shortWait = 30 * second"

definition longWait :: duration where
  "longWait = 1 * minute"

definition errGetTrait :: string where
  "errGetTrait = ''cannot get trait''"

definition errUpdateTraitStatus :: string where
  "errUpdateTraitStatus = ''cannot update trait status''"

definition errTraitModify :: string where
  "errTraitModify = ''cannot apply trait modification''"

definition errGetPackage :: string where
  "errGetPackage = ''cannot get KubernetesApplication for workload reference in trait''"

definition errApplyTraitModification :: string where
  "errApplyTraitModification = ''cannot apply trait modification to KubernetesApplication''"

definition reasonTraitModify :: string where
  "reasonTraitModify = ''PackageModified''"

definition reasonCannotGetPackage :: string where
  "reasonCannotGetPackage = ''CannotGetReferencedWorkloadPackage''"

definition reasonCannotModifyPackage :: string where
  "reasonCannotModifyPackage = ''CannotModifyPackage''"

definition reasonCannotApplyModification :: string where
  "reasonCannotApplyModification = ''CannotApplyModification''"

text \<open>\<open>reconcile.Result\<close>; its zero value asks for no requeue.\<close>

record result =
  requeue :: bool
  requeueAfter :: duration

definition noRequeue :: result where
  "noRequeue = \<lparr>requeue = False, requeueAfter = 0\<rparr>"

definition requeueIn :: "duration \<Rightarrow> result" where
  "requeueIn d = \<lparr>requeue = False, requeueAfter = d\<rparr>"

text \<open>
  The conditions of the runtime library: \<open>ReconcileSuccess\<close> and \<open>ReconcileError\<close> are
  of type Synced; \<open>SetConditions\<close> overwrites the conditions of the same type and appends
  the condition when there is none; \<open>GetCondition\<close> returns the first condition of a type,
  or an unknown one.
\<close>

definition reconcileSuccess :: condition where
  "reconcileSuccess = \<lparr>c_type = TypeSynced, c_status = ConditionTrue,
     c_reason = ReasonReconcileSuccess, c_message = []\<rparr>"

definition reconcileError :: "error \<Rightarrow> condition" where
  "reconcileError e = \<lparr>c_type = TypeSynced, c_status = ConditionFalse,
     c_reason = ReasonReconcileError, c_message = errorString e\<rparr>"

definition setConditions :: "condition \<Rightarrow> trait \<Rightarrow> trait" where
  "setConditions new t =
     (if c_type new \<in> set (map c_type (t_conditions t))
      then t\<lparr>t_conditions := map (\<lambda>c. if c_type c = c_type new then new else c) (t_conditions t)\<rparr>
      else t\<lparr>t_conditions := t_conditions t @ [new]\<rparr>)"

definition getCondition :: "conditionType \<Rightarrow> trait \<Rightarrow> condition" where
  "getCondition ty t =
     (case filter (\<lambda>c. c_type c = ty) (t_conditions t) of
        [] \<Rightarrow> \<lparr>c_type = ty, c_status = ConditionUnknown, c_reason = ReasonOther [], c_message = []\<rparr>
      | c # cs \<Rightarrow> c)"

text \<open>
  What a reconciler is built from: the four operations of the store client that
  \<open>Reconcile\<close> uses (fetching the trait and the KubernetesApplication by namespace and name,
  \<open>resource.Apply\<close> under \<open>ControllersMustMatch\<close>, the status update), and the modifier.
  A modifier reads the trait and returns its error with the aggregate as it leaves it.
\<close>

type_synonym namespacedName = "string \<times> string"

record 'u reconciler =
  clientGetTrait :: "namespacedName \<Rightarrow> error + trait"
  clientGetApp :: "namespacedName \<Rightarrow> error + 'u kubernetesApplication"
  clientApply :: "'u kubernetesApplication \<Rightarrow> error option"
  clientStatusUpdate :: "trait \<Rightarrow> error option"
  modifier :: "'u kubernetesApplication \<Rightarrow> runtime_object \<Rightarrow> error option \<times> 'u kubernetesApplication"

text \<open>
  The calls \<open>Reconcile\<close> makes that act on the world, in order: the events recorded, the
  aggregate handed to \<open>resource.Apply\<close>, the trait handed to the status update.
\<close>

datatype eventType = Normal | Warning

datatype 'u effect =
    EventRecorded eventType string string
  | Apply "'u kubernetesApplication"
  | StatusUpdated trait

type_synonym 'u reconciled = "result \<times> error option \<times> 'u effect list"

text \<open>
  The four lines every failure after the fetch of the trait ends with: record a warning,
  set the error condition, and return the short wait with the wrapped result of the
  status update.
\<close>

definition failStatus ::
  "'u reconciler \<Rightarrow> trait \<Rightarrow> string \<Rightarrow> error \<Rightarrow> string \<Rightarrow> 'u effect list \<Rightarrow> 'u reconciled" where
  "failStatus r t reason err msg sofar =
     (let t' = setConditions (reconcileError (Wrap err msg)) t
      in (requeueIn shortWait,
          wrap (clientStatusUpdate r t') errUpdateTraitStatus,
          sofar @ [EventRecorded Warning reason (errorString err), StatusUpdated t']))"

text \<open>The three setters that stamp the aggregate before it is applied.\<close>

definition stamp :: "trait \<Rightarrow> 'u kubernetesApplication \<Rightarrow> 'u kubernetesApplication" where
  "stamp t app = app\<lparr>app_ownerReferences := t_ownerReferences t,
     app_name := t_workloadRefName t, app_namespace := t_namespace t\<rparr>"

text \<open>\<open>Reconcile\<close> from the call of the modifier on.\<close>

definition modifyAndApply ::
  "'u reconciler \<Rightarrow> trait \<Rightarrow> 'u kubernetesApplication \<Rightarrow> 'u reconciled" where
  "modifyAndApply r t app =
     (case modifier r app (Trait t) of
        (Some err, app') \<Rightarrow> failStatus r t reasonCannotModifyPackage err errTraitModify []
      | (None, app') \<Rightarrow>
          (case clientApply r (stamp t app') of
             Some err \<Rightarrow>
               failStatus r t reasonCannotApplyModification err errApplyTraitModification
                 [Apply (stamp t app')]
           | None \<Rightarrow>
               (let t' = setConditions reconcileSuccess t
                in (requeueIn longWait,
                    wrap (clientStatusUpdate r t') errUpdateTraitStatus,
                    [Apply (stamp t app'),
                     EventRecorded Normal reasonTraitModify ''Successfully modifed workload package'',
                     StatusUpdated t']))))"

text \<open>
  \<open>Reconcile\<close>: fetch the trait; fetch the KubernetesApplication into a zero value, which
  stays as it is when the fetch fails; go on unless \<open>IgnoreNotFound\<close> keeps the error.
  The deadline of the context and the debug log are left out: an expired deadline shows
  as an error of the client operation it interrupts.
\<close>

definition Reconcile :: "'u reconciler \<Rightarrow> namespacedName \<Rightarrow> 'u reconciled" where
  "Reconcile r req =
     (case clientGetTrait r req of
        Inl err \<Rightarrow> (noRequeue, wrap (ignoreNotFound (Some err)) errGetTrait, [])
      | Inr t \<Rightarrow>
          (case clientGetApp r (t_namespace t, t_workloadRefName t) of
             Inl err \<Rightarrow>
               (case ignoreNotFound (Some err) of
                  Some e \<Rightarrow> failStatus r t reasonCannotGetPackage err errGetPackage []
                | None \<Rightarrow> modifyAndApply r t emptyApp)
           | Inr app \<Rightarrow> modifyAndApply r t app))"

section \<open>Concrete inputs\<close>

text \<open>
  A workload with one container, \<open>web\<close>, that runs \<open>nginx\<close>, exposes one TCP port, and
  has its resources set (half a CPU, 128Mi of memory, no volumes).
\<close>

definition webContainer :: oamContainer where
  "webContainer = \<lparr>oc_name = ''web'', oc_image = ''nginx'', oc_command = [], oc_arguments = [],
     oc_imagePullSecret = None,
     oc_resources = Some \<lparr>ors_cpuRequired = ''500m'', ors_memoryRequired = ''128Mi'',
       ors_volumes = []\<rparr>,
     oc_ports = [\<lparr>op_name = ''http'', op_port = 80, op_protocol = Some ''TCP''\<rparr>],
     oc_environment = [], oc_livenessProbe = None, oc_readinessProbe = None\<rparr>"

definition webWorkload :: containerizedWorkload where
  "webWorkload = \<lparr>cw_operatingSystem = None, cw_cpuArchitecture = None,
     cw_containers = [webContainer]\<rparr>"

text \<open>The same workload with nothing but the name, the image and the port of its container.\<close>

definition bareWebWorkload :: containerizedWorkload where
  "bareWebWorkload = \<lparr>cw_operatingSystem = None, cw_cpuArchitecture = None,
     cw_containers = [webContainer\<lparr>oc_resources := None\<rparr>]\<rparr>"

text \<open>Workloads without containers that select an operating system, or an architecture.\<close>

definition linuxWorkload :: containerizedWorkload where
  "linuxWorkload = \<lparr>cw_operatingSystem = Some ''linux'', cw_cpuArchitecture = None,
     cw_containers = []\<rparr>"

definition amd64Workload :: containerizedWorkload where
  "amd64Workload = \<lparr>cw_operatingSystem = None, cw_cpuArchitecture = Some ''amd64'',
     cw_containers = []\<rparr>"

text \<open>The \<open>web\<close> workload, resources set, with the protocol of its port left out.\<close>

definition noProtocolWorkload :: containerizedWorkload where
  "noProtocolWorkload = \<lparr>cw_operatingSystem = None, cw_cpuArchitecture = None,
     cw_containers =
       [webContainer\<lparr>oc_ports := [\<lparr>op_name = ''http'', op_port = 80, op_protocol = None\<rparr>]\<rparr>]\<rparr>"

text \<open>
  An instance of the API machinery in which a document is the Deployment it encodes: the
  kind is the kind of the Deployment, and both conversions succeed and lose nothing.
\<close>

definition idApi :: "deployment apimachinery" where
  "idApi = \<lparr>getKind = d_kind, fromUnstructured = Inr, toUnstructured = Inr\<rparr>"

definition deploymentDoc :: "int32 \<Rightarrow> deployment" where
  "deploymentDoc n = emptyDeployment\<lparr>d_kind := ''Deployment'', d_replicas := Some n\<rparr>"

definition serviceDoc :: deployment where
  "serviceDoc = emptyDeployment\<lparr>d_kind := ''Service''\<rparr>"

definition templateOf :: "'u \<Rightarrow> 'u resourceTemplate" where
  "templateOf u = \<lparr>rt_name = [], rt_template = u, rt_secrets = []\<rparr>"

text \<open>An aggregate with a Deployment, a Service, and a second Deployment, in this order.\<close>

definition twoDeployments :: "deployment kubernetesApplication" where
  "twoDeployments = emptyApp\<lparr>resourceTemplates :=
     [templateOf (deploymentDoc 1), templateOf serviceDoc, templateOf (deploymentDoc 1)]\<rparr>"

definition serviceOnly :: "deployment kubernetesApplication" where
  "serviceOnly = emptyApp\<lparr>resourceTemplates := [templateOf serviceDoc]\<rparr>"

definition scalerTrait :: "int32 \<Rightarrow> trait" where
  "scalerTrait n = \<lparr>t_name = ''scaler'', t_namespace = ''default'', t_ownerReferences = [],
     t_workloadRefName = ''web'', t_conditions = [], t_spec = ManualScalerSpec n\<rparr>"

text \<open>
  The mock client of the reconciler's tests: every fetch of a trait returns \<open>gt\<close>, every
  fetch of a KubernetesApplication returns \<open>ga\<close>, applying and updating the status succeed.
\<close>

definition errBoom :: error where
  "errBoom = New ''boom''"

definition mockReconciler ::
  "(error + trait) \<Rightarrow> (error + deployment kubernetesApplication) \<Rightarrow> deployment reconciler" where
  "mockReconciler gt ga = \<lparr>clientGetTrait = (\<lambda>key. gt), clientGetApp = (\<lambda>key. ga),
     clientApply = (\<lambda>app. None), clientStatusUpdate = (\<lambda>t. None),
     modifier = manualScalerModifier idApi\<rparr>"

section \<open>Properties of the packagers\<close>

text \<open>
  Whatever object it is given, \<open>containerizedWorkloadPackager\<close> hands the aggregate back as
  it received it, while \<open>genericPackager\<close> appends one resource template when the
  conversion succeeds.
\<close>

lemma containerizedWorkloadPackager_keeps_app:
  "containerizedWorkloadPackager app obj = Returned (e, app') \<Longrightarrow> app' = app"
  by (auto simp: containerizedWorkloadPackager_def split: runtime_object.splits outcome.splits)

lemma genericPackager_appends_one:
  "genericPackager conv app obj = (None, app') \<Longrightarrow>
     \<exists>t. resourceTemplates app' = resourceTemplates app @ [t]"
  by (auto simp: genericPackager_def split: sum.splits)

lemma operatingSystem_panics:
  "cw_operatingSystem cw = Some os \<Longrightarrow> buildDeployment cw = Panic nilMapPanic"
  by (simp add: buildDeployment_def setNodeSelector_def emptyDeployment_def)

text \<open>
  C1: packaging a ContainerizedWorkload appends exactly one new fragment to the aggregate;
  the workload with the container \<open>web\<close> yields a fragment whose one container has the
  name, the image and the port of the descriptor. On the code, with the resources of the
  container set, the Deployment built for this workload has that container and that port,
  but the packager returns without adding it: the fragments of the aggregate are what they
  were. With the resources of the container left out, as in the descriptor of the claim
  taken literally, the packager panics on the nil resources pointer.
\<close>

theorem packager_web_workload_not_appended:
  "containerizedWorkloadPackager app (ContainerizedWorkload webWorkload) = Returned (None, app)
   \<and> (\<exists>d. buildDeployment webWorkload = Returned d
          \<and> map kc_name (d_containers d) = [''web'']
          \<and> map kc_image (d_containers d) = [''nginx'']
          \<and> map kc_ports (d_containers d)
              = [[\<lparr>kp_name = ''http'', kp_containerPort = 80, kp_protocol = ''TCP''\<rparr>]])
   \<and> containerizedWorkloadPackager app (ContainerizedWorkload bareWebWorkload) = Panic nilDerefPanic"
  by (simp add: containerizedWorkloadPackager_def buildDeployment_def webWorkload_def
      bareWebWorkload_def webContainer_def containerOf_def emptyDeployment_def)

text \<open>
  C5: with an operating system (or a CPU architecture) selected, packaging completes and
  adds the selector to the output. On the code, the selector is written into the nil map
  of a fresh Deployment, and the packager panics.
\<close>

theorem packager_selector_panics:
  "containerizedWorkloadPackager app (ContainerizedWorkload linuxWorkload) = Panic nilMapPanic
   \<and> containerizedWorkloadPackager app (ContainerizedWorkload amd64Workload) = Panic nilMapPanic"
  by (simp add: containerizedWorkloadPackager_def buildDeployment_def linuxWorkload_def
      amd64Workload_def setNodeSelector_def emptyDeployment_def)

text \<open>
  C6: a port is mapped to a port entry, its protocol copied when there is one and left
  absent otherwise, without a runtime fault. On the code, the protocol pointer of a port
  is dereferenced unguarded, and a port without a protocol makes the packager panic, also
  when the resources of its container are set.
\<close>

theorem packager_absent_protocol_panics:
  "containerizedWorkloadPackager app (ContainerizedWorkload noProtocolWorkload) = Panic nilDerefPanic"
  by (simp add: containerizedWorkloadPackager_def buildDeployment_def noProtocolWorkload_def
      webContainer_def containerOf_def)

section \<open>Properties of the modifier\<close>

lemma modifyTemplates_no_match:
  "\<forall>t \<in> set ts. getKind api (rt_template t) \<noteq> ''Deployment'' \<Longrightarrow>
     modifyTemplates api n ts = (None, ts)"
  by (induction ts) simp_all

lemma modifyTemplates_length: "length (snd (modifyTemplates api n ts)) = length ts"
  by (induction ts) (auto split: sum.splits prod.splits)

lemma modifyTemplates_other:
  "i < length ts \<Longrightarrow> getKind api (rt_template (ts ! i)) \<noteq> ''Deployment'' \<Longrightarrow>
     snd (modifyTemplates api n ts) ! i = ts ! i"
proof (induction ts arbitrary: i)
  case Nil
  then show ?case by simp
next
  case (Cons t ts)
  show ?case
  proof (cases i)
    case 0
    with Cons.prems show ?thesis by (auto split: prod.splits)
  next
    case (Suc j)
    with Cons.prems have "snd (modifyTemplates api n ts) ! j = ts ! j"
      by (intro Cons.IH) simp_all
    with Suc show ?thesis by (auto split: sum.splits prod.splits)
  qed
qed

lemma modifyTemplates_patched:
  "fst (modifyTemplates api n ts) = None \<Longrightarrow> i < length ts \<Longrightarrow>
   getKind api (rt_template (ts ! i)) = ''Deployment'' \<Longrightarrow>
     \<exists>d u. fromUnstructured api (rt_template (ts ! i)) = Inr d
       \<and> toUnstructured api (d\<lparr>d_replicas := Some n\<rparr>) = Inr u
       \<and> snd (modifyTemplates api n ts) ! i = (ts ! i)\<lparr>rt_template := u\<rparr>"
proof (induction ts arbitrary: i)
  case Nil
  then show ?case by simp
next
  case (Cons t ts)
  from Cons.prems(1) have rest: "fst (modifyTemplates api n ts) = None"
    by (auto split: if_splits sum.splits prod.splits)
  show ?case
  proof (cases i)
    case 0
    with Cons.prems show ?thesis by (auto split: sum.splits prod.splits)
  next
    case (Suc j)
    with Cons.prems rest have "\<exists>d u. fromUnstructured api (rt_template (ts ! j)) = Inr d
       \<and> toUnstructured api (d\<lparr>d_replicas := Some n\<rparr>) = Inr u
       \<and> snd (modifyTemplates api n ts) ! j = (ts ! j)\<lparr>rt_template := u\<rparr>"
      by (intro Cons.IH) simp_all
    with Suc Cons.prems(1) show ?thesis by (auto split: if_splits sum.splits prod.splits)
  qed
qed

lemma modifyTemplates_converts:
  "\<forall>t \<in> set ts. getKind api (rt_template t) = ''Deployment'' \<longrightarrow>
      (\<exists>d u. fromUnstructured api (rt_template t) = Inr d
         \<and> toUnstructured api (d\<lparr>d_replicas := Some n\<rparr>) = Inr u) \<Longrightarrow>
     fst (modifyTemplates api n ts) = None"
  by (induction ts) (auto split: prod.splits sum.splits)

lemma modify_twoDeployments:
  "manualScalerModifier idApi twoDeployments (Trait (scalerTrait 3)) =
     (None, emptyApp\<lparr>resourceTemplates :=
        [templateOf (deploymentDoc 3), templateOf serviceDoc, templateOf (deploymentDoc 3)]\<rparr>)"
  by (simp add: manualScalerModifier_def scalerTrait_def twoDeployments_def idApi_def
      templateOf_def deploymentDoc_def serviceDoc_def emptyApp_def emptyDeployment_def)

text \<open>
  The first fragment of \<open>twoDeployments\<close> is a Deployment, and so is the third: modifying
  with a replica count of 3 rewrites the third fragment as well.
\<close>

theorem modifier_patches_later_deployment:
  "getKind idApi (rt_template (resourceTemplates twoDeployments ! 0)) = ''Deployment''
   \<and> getKind idApi (rt_template (resourceTemplates twoDeployments ! 2)) = ''Deployment''
   \<and> resourceTemplates (snd (manualScalerModifier idApi twoDeployments (Trait (scalerTrait 3)))) ! 2
       \<noteq> resourceTemplates twoDeployments ! 2"
  by (simp add: manualScalerModifier_def scalerTrait_def twoDeployments_def idApi_def
      templateOf_def deploymentDoc_def serviceDoc_def emptyApp_def emptyDeployment_def)

text \<open>
  C2, as amended: for a manual scaler trait, the modifier keeps the number and the order of
  the fragments and everything else of the aggregate, and a fragment whose kind is not
  Deployment is untouched. When every fragment of kind Deployment decodes, and encodes again
  with the replica count of the trait, the modifier reports no error; and whenever it
  reports no error, every fragment of kind Deployment (not only the first) is replaced, at
  its position, by the encoding of its decoding with the replica count of the trait.
\<close>

theorem modifier_patches_every_deployment:
  assumes "t_spec t = ManualScalerSpec n"
    and "manualScalerModifier api app (Trait t) = (r, app')"
  shows "length (resourceTemplates app') = length (resourceTemplates app)
    \<and> app'\<lparr>resourceTemplates := resourceTemplates app\<rparr> = app
    \<and> (\<forall>i < length (resourceTemplates app).
          (getKind api (rt_template (resourceTemplates app ! i)) \<noteq> ''Deployment''
             \<longrightarrow> resourceTemplates app' ! i = resourceTemplates app ! i)
        \<and> (r = None \<and> getKind api (rt_template (resourceTemplates app ! i)) = ''Deployment''
             \<longrightarrow> (\<exists>d u. fromUnstructured api (rt_template (resourceTemplates app ! i)) = Inr d
                    \<and> toUnstructured api (d\<lparr>d_replicas := Some n\<rparr>) = Inr u
                    \<and> resourceTemplates app' ! i = (resourceTemplates app ! i)\<lparr>rt_template := u\<rparr>)))
    \<and> ((\<forall>i < length (resourceTemplates app).
           getKind api (rt_template (resourceTemplates app ! i)) = ''Deployment''
             \<longrightarrow> (\<exists>d u. fromUnstructured api (rt_template (resourceTemplates app ! i)) = Inr d
                    \<and> toUnstructured api (d\<lparr>d_replicas := Some n\<rparr>) = Inr u))
         \<longrightarrow> r = None)"
proof -
  obtain r0 ts' where m: "modifyTemplates api n (resourceTemplates app) = (r0, ts')"
    by (cases "modifyTemplates api n (resourceTemplates app)")
  with assms have r: "r = r0" and a: "app' = app\<lparr>resourceTemplates := ts'\<rparr>"
    by (simp_all add: manualScalerModifier_def)
  from m have f: "fst (modifyTemplates api n (resourceTemplates app)) = r0"
    and s: "snd (modifyTemplates api n (resourceTemplates app)) = ts'" by simp_all
  have len: "length ts' = length (resourceTemplates app)"
    using modifyTemplates_length [of api n "resourceTemplates app"] s by simp
  have other: "\<And>i. i < length (resourceTemplates app) \<Longrightarrow>
      getKind api (rt_template (resourceTemplates app ! i)) \<noteq> ''Deployment'' \<Longrightarrow>
      ts' ! i = resourceTemplates app ! i"
    using modifyTemplates_other [of _ "resourceTemplates app" api n] s by simp
  have patched: "\<And>i. r0 = None \<Longrightarrow> i < length (resourceTemplates app) \<Longrightarrow>
      getKind api (rt_template (resourceTemplates app ! i)) = ''Deployment'' \<Longrightarrow>
      \<exists>d u. fromUnstructured api (rt_template (resourceTemplates app ! i)) = Inr d
         \<and> toUnstructured api (d\<lparr>d_replicas := Some n\<rparr>) = Inr u
         \<and> ts' ! i = (resourceTemplates app ! i)\<lparr>rt_template := u\<rparr>"
    using modifyTemplates_patched [of api n "resourceTemplates app"] f s by simp
  have converts: "r0 = None"
    if all: "\<forall>i < length (resourceTemplates app).
           getKind api (rt_template (resourceTemplates app ! i)) = ''Deployment''
             \<longrightarrow> (\<exists>d u. fromUnstructured api (rt_template (resourceTemplates app ! i)) = Inr d
                    \<and> toUnstructured api (d\<lparr>d_replicas := Some n\<rparr>) = Inr u)"
  proof -
    from all have "\<forall>t \<in> set (resourceTemplates app).
        getKind api (rt_template t) = ''Deployment'' \<longrightarrow>
          (\<exists>d u. fromUnstructured api (rt_template t) = Inr d
             \<and> toUnstructured api (d\<lparr>d_replicas := Some n\<rparr>) = Inr u)"
      by (auto simp: in_set_conv_nth)
    then have "fst (modifyTemplates api n (resourceTemplates app)) = None"
      by (rule modifyTemplates_converts)
    with f show ?thesis by simp
  qed
  from len other patched converts r a show ?thesis by simp
qed

theorem modifier_patches_every_deployment_witness:
  "t_spec (scalerTrait 3) = ManualScalerSpec 3
   \<and> manualScalerModifier idApi twoDeployments (Trait (scalerTrait 3)) =
       (None, emptyApp\<lparr>resourceTemplates :=
          [templateOf (deploymentDoc 3), templateOf serviceDoc, templateOf (deploymentDoc 3)]\<rparr>)
   \<and> length (resourceTemplates (emptyApp\<lparr>resourceTemplates :=
          [templateOf (deploymentDoc 3), templateOf serviceDoc, templateOf (deploymentDoc 3)]\<rparr>
          :: deployment kubernetesApplication))
       = length (resourceTemplates twoDeployments)"
proof -
  have h1: "t_spec (scalerTrait 3) = ManualScalerSpec 3" by (simp add: scalerTrait_def)
  note h2 = modify_twoDeployments
  from modifier_patches_every_deployment [OF h1 h2] h1 h2 show ?thesis by simp
qed

text \<open>
  C7: when no fragment of the aggregate has the kind the trait targets, modifying with a
  manual scaler trait returns the aggregate unchanged and reports no error.
\<close>

theorem modifier_no_match_unchanged:
  assumes "t_spec t = ManualScalerSpec n"
    and "\<forall>rt \<in> set (resourceTemplates app). getKind api (rt_template rt) \<noteq> ''Deployment''"
  shows "manualScalerModifier api app (Trait t) = (None, app)"
  using assms by (simp add: manualScalerModifier_def modifyTemplates_no_match)

theorem modifier_no_match_unchanged_witness:
  "t_spec (scalerTrait 3) = ManualScalerSpec 3
   \<and> map (\<lambda>rt. getKind idApi (rt_template rt)) (resourceTemplates serviceOnly) = [''Service'']
   \<and> manualScalerModifier idApi serviceOnly (Trait (scalerTrait 3)) = (None, serviceOnly)"
proof -
  have h1: "t_spec (scalerTrait 3) = ManualScalerSpec 3" by (simp add: scalerTrait_def)
  have k: "map (\<lambda>rt. getKind idApi (rt_template rt)) (resourceTemplates serviceOnly) = [''Service'']"
    by (simp add: serviceOnly_def idApi_def templateOf_def serviceDoc_def emptyApp_def)
  have h2: "\<forall>rt \<in> set (resourceTemplates serviceOnly). getKind idApi (rt_template rt) \<noteq> ''Deployment''"
    by (simp add: serviceOnly_def idApi_def templateOf_def serviceDoc_def emptyApp_def)
  from modifier_no_match_unchanged [OF h1 h2] h1 k show ?thesis by simp
qed

section \<open>Properties of the trait reconciler\<close>

subsection \<open>Conditions\<close>

lemma filter_overwritten:
  "ty \<in> set (map c_type cs) \<Longrightarrow> c_type new = ty \<Longrightarrow>
     \<exists>rest. filter (\<lambda>c. c_type c = ty) (map (\<lambda>c. if c_type c = ty then new else c) cs)
              = new # rest"
  by (induction cs) auto

lemma filter_absent:
  "ty \<notin> set (map c_type cs) \<Longrightarrow> filter (\<lambda>c. c_type c = ty) cs = []"
  by (induction cs) auto

lemma getCondition_setConditions:
  "getCondition (c_type new) (setConditions new t) = new"
proof (cases "c_type new \<in> set (map c_type (t_conditions t))")
  case True
  then obtain rest where
    "filter (\<lambda>c. c_type c = c_type new)
       (map (\<lambda>c. if c_type c = c_type new then new else c) (t_conditions t)) = new # rest"
    using filter_overwritten [of "c_type new" "t_conditions t" new] by blast
  with True show ?thesis by (simp add: getCondition_def setConditions_def)
next
  case False
  then show ?thesis
    using filter_absent [of "c_type new" "t_conditions t"]
    by (simp add: getCondition_def setConditions_def)
qed

lemma getCondition_success:
  "getCondition TypeSynced (setConditions reconcileSuccess t) = reconcileSuccess"
  using getCondition_setConditions [of reconcileSuccess t] by (simp add: reconcileSuccess_def)

lemma getCondition_error:
  "getCondition TypeSynced (setConditions (reconcileError e) t) = reconcileError e"
  using getCondition_setConditions [of "reconcileError e" t] by (simp add: reconcileError_def)

subsection \<open>The fetch of the trait\<close>

text \<open>
  C8: when the trait is not found, \<open>Reconcile\<close> returns an empty result and a nil error,
  and neither writes the status nor does anything else.
\<close>

theorem reconcile_trait_not_found:
  assumes "clientGetTrait r req = Inl e" and "isNotFound e"
  shows "Reconcile r req = (\<lparr>requeue = False, requeueAfter = 0\<rparr>, None, [])"
  using assms by (simp add: Reconcile_def noRequeue_def)

theorem reconcile_trait_not_found_witness:
  "clientGetTrait (mockReconciler (Inl (NotFound ''not found'')) (Inl errBoom)) ([], [])
     = Inl (NotFound ''not found'')
   \<and> isNotFound (NotFound ''not found'')
   \<and> Reconcile (mockReconciler (Inl (NotFound ''not found'')) (Inl errBoom)) ([], [])
       = (\<lparr>requeue = False, requeueAfter = 0\<rparr>, None, [])"
proof -
  have h1: "clientGetTrait (mockReconciler (Inl (NotFound ''not found'')) (Inl errBoom)) ([], [])
              = Inl (NotFound ''not found'')"
    by (simp add: mockReconciler_def)
  have h2: "isNotFound (NotFound ''not found'')" by simp
  from reconcile_trait_not_found [OF h1 h2] h1 h2 show ?thesis by simp
qed

text \<open>
  With the client of the test \<open>GetTraitError\<close>, whose every fetch fails with \<open>boom\<close>, the
  delay returned is not the short wait, and no status is written.
\<close>

theorem reconcile_trait_error_no_status_write:
  "clientGetTrait (mockReconciler (Inl errBoom) (Inl errBoom)) ([], []) = Inl errBoom
   \<and> \<not> isNotFound errBoom
   \<and> requeueAfter (fst (Reconcile (mockReconciler (Inl errBoom) (Inl errBoom)) ([], []))) \<noteq> shortWait
   \<and> snd (snd (Reconcile (mockReconciler (Inl errBoom) (Inl errBoom)) ([], []))) = []"
  by (simp add: Reconcile_def mockReconciler_def errBoom_def noRequeue_def shortWait_def second_def)

text \<open>
  C4, as amended: when the fetch of the trait fails with an error other than not-found,
  \<open>Reconcile\<close> returns an empty result (no requeue delay) together with the error wrapped
  in \<open>cannot get trait\<close>; it sets no condition and writes no status.
\<close>

theorem reconcile_trait_error_returned:
  assumes "clientGetTrait r req = Inl e" and "\<not> isNotFound e"
  shows "Reconcile r req = (\<lparr>requeue = False, requeueAfter = 0\<rparr>, Some (Wrap e errGetTrait), [])"
  using assms by (simp add: Reconcile_def noRequeue_def)

theorem reconcile_trait_error_returned_witness:
  "clientGetTrait (mockReconciler (Inl errBoom) (Inl errBoom)) ([], []) = Inl errBoom
   \<and> \<not> isNotFound errBoom
   \<and> Reconcile (mockReconciler (Inl errBoom) (Inl errBoom)) ([], [])
       = (\<lparr>requeue = False, requeueAfter = 0\<rparr>,
          Some (Wrap (New ''boom'') ''cannot get trait''), [])"
proof -
  have h1: "clientGetTrait (mockReconciler (Inl errBoom) (Inl errBoom)) ([], []) = Inl errBoom"
    by (simp add: mockReconciler_def)
  have h2: "\<not> isNotFound errBoom" by (simp add: errBoom_def)
  from reconcile_trait_error_returned [OF h1 h2] h1 h2 show ?thesis
    by (simp add: errBoom_def errGetTrait_def)
qed

subsection \<open>The fetch of the KubernetesApplication\<close>

lemma failStatus_ignores_get:
  "failStatus (r\<lparr>clientGetApp := f\<rparr>) t reason err msg sofar = failStatus r t reason err msg sofar"
  by (simp add: failStatus_def)

lemma modifyAndApply_ignores_get:
  "modifyAndApply (r\<lparr>clientGetApp := f\<rparr>) t app = modifyAndApply r t app"
  by (simp add: modifyAndApply_def failStatus_ignores_get split: prod.splits option.splits)

text \<open>
  A manual scaler trait whose KubernetesApplication is not found: \<open>Reconcile\<close> applies an
  empty aggregate, stamped with the identity of the trait's workload reference, sets the
  success condition, and returns the long wait with a nil error.
\<close>

theorem reconcile_missing_app_succeeds:
  "clientGetApp (mockReconciler (Inr (scalerTrait 3)) (Inl (NotFound ''not found''))) (''default'', ''web'')
      = Inl (NotFound ''not found'')
   \<and> Reconcile (mockReconciler (Inr (scalerTrait 3)) (Inl (NotFound ''not found''))) (''default'', ''scaler'')
      = (requeueIn longWait, None,
         [Apply (stamp (scalerTrait 3) emptyApp),
          EventRecorded Normal ''PackageModified'' ''Successfully modifed workload package'',
          StatusUpdated ((scalerTrait 3)\<lparr>t_conditions := [reconcileSuccess]\<rparr>)])"
  by (simp add: Reconcile_def mockReconciler_def modifyAndApply_def manualScalerModifier_def
      scalerTrait_def emptyApp_def setConditions_def reasonTraitModify_def)

text \<open>
  C3, as amended: on the trait reconcile path a not-found result of the fetch of the
  KubernetesApplication is ignored: \<open>Reconcile\<close> goes on exactly as if the store held an
  empty KubernetesApplication.
\<close>

theorem reconcile_missing_app_is_empty_app:
  assumes "clientGetTrait r req = Inr t"
    and "clientGetApp r (t_namespace t, t_workloadRefName t) = Inl e"
    and "isNotFound e"
  shows "Reconcile r req = Reconcile (r\<lparr>clientGetApp := (\<lambda>key. Inr emptyApp)\<rparr>) req"
  using assms by (simp add: Reconcile_def modifyAndApply_ignores_get)

theorem reconcile_missing_app_is_empty_app_witness:
  "clientGetTrait (mockReconciler (Inr (scalerTrait 3)) (Inl (NotFound ''not found''))) (''default'', ''scaler'')
      = Inr (scalerTrait 3)
   \<and> clientGetApp (mockReconciler (Inr (scalerTrait 3)) (Inl (NotFound ''not found'')))
        (t_namespace (scalerTrait 3), t_workloadRefName (scalerTrait 3)) = Inl (NotFound ''not found'')
   \<and> isNotFound (NotFound ''not found'')
   \<and> Reconcile (mockReconciler (Inr (scalerTrait 3)) (Inl (NotFound ''not found''))) (''default'', ''scaler'')
      = Reconcile ((mockReconciler (Inr (scalerTrait 3)) (Inl (NotFound ''not found'')))
                     \<lparr>clientGetApp := (\<lambda>key. Inr emptyApp)\<rparr>) (''default'', ''scaler'')"
proof -
  have h1: "clientGetTrait (mockReconciler (Inr (scalerTrait 3)) (Inl (NotFound ''not found'')))
              (''default'', ''scaler'') = Inr (scalerTrait 3)"
    by (simp add: mockReconciler_def)
  have h2: "clientGetApp (mockReconciler (Inr (scalerTrait 3)) (Inl (NotFound ''not found'')))
              (t_namespace (scalerTrait 3), t_workloadRefName (scalerTrait 3))
              = Inl (NotFound ''not found'')"
    by (simp add: mockReconciler_def)
  have h3: "isNotFound (NotFound ''not found'')" by simp
  from reconcile_missing_app_is_empty_app [OF h1 h2 h3] h1 h2 h3 show ?thesis by simp
qed

subsection \<open>Success\<close>

text \<open>
  C9: when the modifier and the apply both succeed, the trait handed to the status update
  carries the condition with reason Success and an empty message, and the delay returned
  is the long wait, 60 seconds.
\<close>

theorem reconcile_success_long_wait:
  assumes "clientGetTrait r req = Inr t"
    and "clientGetApp r (t_namespace t, t_workloadRefName t) = Inr app
         \<or> (\<exists>e. clientGetApp r (t_namespace t, t_workloadRefName t) = Inl e \<and> isNotFound e
               \<and> app = emptyApp)"
    and "modifier r app (Trait t) = (None, app')"
    and "clientApply r (stamp t app') = None"
  shows "Reconcile r req =
           (\<lparr>requeue = False, requeueAfter = 60 * 1000000000\<rparr>,
            wrap (clientStatusUpdate r (setConditions reconcileSuccess t)) errUpdateTraitStatus,
            [Apply (stamp t app'),
             EventRecorded Normal reasonTraitModify ''Successfully modifed workload package'',
             StatusUpdated (setConditions reconcileSuccess t)])
         \<and> c_reason (getCondition TypeSynced (setConditions reconcileSuccess t)) = ReasonReconcileSuccess
         \<and> c_message (getCondition TypeSynced (setConditions reconcileSuccess t)) = []
         \<and> longWait = 60 * 1000000000"
proof -
  have m: "modifyAndApply r t app =
           (\<lparr>requeue = False, requeueAfter = 60 * 1000000000\<rparr>,
            wrap (clientStatusUpdate r (setConditions reconcileSuccess t)) errUpdateTraitStatus,
            [Apply (stamp t app'),
             EventRecorded Normal reasonTraitModify ''Successfully modifed workload package'',
             StatusUpdated (setConditions reconcileSuccess t)])"
    using assms(3,4)
    by (simp add: modifyAndApply_def requeueIn_def longWait_def minute_def second_def Let_def)
  from assms(2) have "Reconcile r req = modifyAndApply r t app"
    using assms(1) by (auto simp: Reconcile_def)
  moreover have "c_reason (getCondition TypeSynced (setConditions reconcileSuccess t)) = ReasonReconcileSuccess"
    and "c_message (getCondition TypeSynced (setConditions reconcileSuccess t)) = []"
    unfolding getCondition_success by (simp_all add: reconcileSuccess_def)
  moreover have "longWait = 60 * 1000000000"
    by (simp add: longWait_def minute_def second_def)
  ultimately show ?thesis using m by simp
qed

theorem reconcile_success_long_wait_witness:
  "clientGetTrait (mockReconciler (Inr (scalerTrait 3)) (Inr twoDeployments)) (''default'', ''scaler'')
      = Inr (scalerTrait 3)
   \<and> Reconcile (mockReconciler (Inr (scalerTrait 3)) (Inr twoDeployments)) (''default'', ''scaler'') =
       (\<lparr>requeue = False, requeueAfter = 60000000000\<rparr>, None,
        [Apply (stamp (scalerTrait 3) (emptyApp\<lparr>resourceTemplates :=
           [templateOf (deploymentDoc 3), templateOf serviceDoc, templateOf (deploymentDoc 3)]\<rparr>)),
         EventRecorded Normal ''PackageModified'' ''Successfully modifed workload package'',
         StatusUpdated ((scalerTrait 3)\<lparr>t_conditions := [reconcileSuccess]\<rparr>)])"
proof -
  let ?r = "mockReconciler (Inr (scalerTrait 3)) (Inr twoDeployments)"
  let ?app' = "emptyApp\<lparr>resourceTemplates :=
     [templateOf (deploymentDoc 3), templateOf serviceDoc, templateOf (deploymentDoc 3)]\<rparr>
     :: deployment kubernetesApplication"
  have h1: "clientGetTrait ?r (''default'', ''scaler'') = Inr (scalerTrait 3)"
    by (simp add: mockReconciler_def)
  have h2: "clientGetApp ?r (t_namespace (scalerTrait 3), t_workloadRefName (scalerTrait 3)) = Inr twoDeployments
            \<or> (\<exists>e. clientGetApp ?r (t_namespace (scalerTrait 3), t_workloadRefName (scalerTrait 3)) = Inl e
                  \<and> isNotFound e \<and> twoDeployments = emptyApp)"
    by (simp add: mockReconciler_def)
  have h3: "modifier ?r twoDeployments (Trait (scalerTrait 3)) = (None, ?app')"
    using modify_twoDeployments by (simp add: mockReconciler_def)
  have h4: "clientApply ?r (stamp (scalerTrait 3) ?app') = None"
    by (simp add: mockReconciler_def)
  have s: "setConditions reconcileSuccess (scalerTrait 3)
             = (scalerTrait 3)\<lparr>t_conditions := [reconcileSuccess]\<rparr>"
    by (simp add: setConditions_def scalerTrait_def)
  have u: "clientStatusUpdate ?r ((scalerTrait 3)\<lparr>t_conditions := [reconcileSuccess]\<rparr>) = None"
    by (simp add: mockReconciler_def)
  from reconcile_success_long_wait [OF h1 h2 h3 h4] h1 s u show ?thesis
    by (simp add: reasonTraitModify_def)
qed

subsection \<open>Failures after the fetch of the trait\<close>

text \<open>
  C10: when, after the trait has been fetched, the fetch of the KubernetesApplication fails
  (with an error other than not-found), or the modifier fails, or the apply fails, the
  trait handed to the status update carries the Error condition with the wrapped message,
  the delay returned is the short wait, 30 seconds, and the error returned is the wrapped
  result of the status update: nil when the status write succeeds, and non-nil only when
  the status write itself fails.
\<close>

theorem reconcile_failure_surfaces_in_status:
  assumes "clientGetTrait r req = Inr t"
    and "(clientGetApp r (t_namespace t, t_workloadRefName t) = Inl cause \<and> \<not> isNotFound cause
            \<and> msg = errGetPackage)
         \<or> ((clientGetApp r (t_namespace t, t_workloadRefName t) = Inr app
               \<or> (\<exists>e. clientGetApp r (t_namespace t, t_workloadRefName t) = Inl e \<and> isNotFound e
                     \<and> app = emptyApp))
             \<and> ((modifier r app (Trait t) = (Some cause, app') \<and> msg = errTraitModify)
                \<or> (modifier r app (Trait t) = (None, app')
                     \<and> clientApply r (stamp t app') = Some cause
                     \<and> msg = errApplyTraitModification)))"
    and "t' = setConditions (reconcileError (Wrap cause msg)) t"
  shows "requeueAfter (fst (Reconcile r req)) = 30 * 1000000000
         \<and> shortWait = 30 * 1000000000
         \<and> fst (snd (Reconcile r req)) = wrap (clientStatusUpdate r t') errUpdateTraitStatus
         \<and> (clientStatusUpdate r t' = None \<longrightarrow> fst (snd (Reconcile r req)) = None)
         \<and> (fst (snd (Reconcile r req)) \<noteq> None \<longrightarrow> clientStatusUpdate r t' \<noteq> None)
         \<and> last (snd (snd (Reconcile r req))) = StatusUpdated t'
         \<and> c_reason (getCondition TypeSynced t') = ReasonReconcileError
         \<and> c_message (getCondition TypeSynced t') = msg @ '': '' @ errorString cause"
proof -
  have sw: "shortWait = 30 * 1000000000" by (simp add: shortWait_def second_def)
  have cond: "getCondition TypeSynced t' = reconcileError (Wrap cause msg)"
    using assms(3) by (simp add: getCondition_error)
  have "\<exists>reason sofar. Reconcile r req = failStatus r t reason cause msg sofar"
    using assms(1,2) by (auto simp: Reconcile_def modifyAndApply_def; blast)
  then obtain reason sofar where "Reconcile r req = failStatus r t reason cause msg sofar"
    by blast
  then have R: "Reconcile r req =
      (requeueIn shortWait, wrap (clientStatusUpdate r t') errUpdateTraitStatus,
       sofar @ [EventRecorded Warning reason (errorString cause), StatusUpdated t'])"
    using assms(3) by (simp add: failStatus_def Let_def)
  have w: "clientStatusUpdate r t' = None
             \<longleftrightarrow> wrap (clientStatusUpdate r t') errUpdateTraitStatus = None"
    by (cases "clientStatusUpdate r t'") simp_all
  have "c_reason (getCondition TypeSynced t') = ReasonReconcileError"
    and "c_message (getCondition TypeSynced t') = msg @ '': '' @ errorString cause"
    unfolding cond by (simp_all add: reconcileError_def)
  with R sw w show ?thesis
    by (simp add: requeueIn_def)
qed

theorem reconcile_failure_surfaces_in_status_witness:
  "clientGetTrait (mockReconciler (Inr (scalerTrait 3)) (Inl errBoom)) (''default'', ''scaler'')
      = Inr (scalerTrait 3)
   \<and> clientGetApp (mockReconciler (Inr (scalerTrait 3)) (Inl errBoom)) (''default'', ''web'') = Inl errBoom
   \<and> \<not> isNotFound errBoom
   \<and> requeueAfter (fst (Reconcile (mockReconciler (Inr (scalerTrait 3)) (Inl errBoom))
        (''default'', ''scaler''))) = 30000000000
   \<and> fst (snd (Reconcile (mockReconciler (Inr (scalerTrait 3)) (Inl errBoom)) (''default'', ''scaler'')))
       = None
   \<and> last (snd (snd (Reconcile (mockReconciler (Inr (scalerTrait 3)) (Inl errBoom))
        (''default'', ''scaler''))))
       = StatusUpdated (setConditions (reconcileError (Wrap errBoom errGetPackage)) (scalerTrait 3))"
proof -
  let ?r = "mockReconciler (Inr (scalerTrait 3)) (Inl errBoom)"
  let ?t' = "setConditions (reconcileError (Wrap errBoom errGetPackage)) (scalerTrait 3)"
  have h1: "clientGetTrait ?r (''default'', ''scaler'') = Inr (scalerTrait 3)"
    by (simp add: mockReconciler_def)
  have g: "clientGetApp ?r (''default'', ''web'') = Inl errBoom"
    by (simp add: mockReconciler_def)
  have nf: "\<not> isNotFound errBoom" by (simp add: errBoom_def)
  have k: "(t_namespace (scalerTrait 3), t_workloadRefName (scalerTrait 3)) = (''default'', ''web'')"
    by (simp add: scalerTrait_def)
  have h2: "(clientGetApp ?r (t_namespace (scalerTrait 3), t_workloadRefName (scalerTrait 3)) = Inl errBoom
              \<and> \<not> isNotFound errBoom \<and> errGetPackage = errGetPackage)
         \<or> ((clientGetApp ?r (t_namespace (scalerTrait 3), t_workloadRefName (scalerTrait 3)) = Inr emptyApp
               \<or> (\<exists>e. clientGetApp ?r (t_namespace (scalerTrait 3), t_workloadRefName (scalerTrait 3)) = Inl e
                     \<and> isNotFound e \<and> emptyApp = emptyApp))
             \<and> ((modifier ?r emptyApp (Trait (scalerTrait 3)) = (Some errBoom, emptyApp)
                   \<and> errGetPackage = errTraitModify)
                \<or> (modifier ?r emptyApp (Trait (scalerTrait 3)) = (None, emptyApp)
                     \<and> clientApply ?r (stamp (scalerTrait 3) emptyApp) = Some errBoom
                     \<and> errGetPackage = errApplyTraitModification)))"
    using g nf unfolding k by simp
  have h3: "?t' = setConditions (reconcileError (Wrap errBoom errGetPackage)) (scalerTrait 3)"
    by simp
  have u: "clientStatusUpdate ?r ?t' = None" by (simp add: mockReconciler_def)
  from reconcile_failure_surfaces_in_status [OF h1 h2 h3] h1 g nf u show ?thesis
    by simp
qed

end
